theory Spec2Isabelle
  imports Main "HOL-Library.Sublist"
begin

section \<open>Data model of InteractiveUpgradeUI.ts\<close>

text \<open>
  The file under verification is
  \<^verbatim>\<open>libraries/rush-lib/src/utilities/InteractiveUpgradeUI.ts\<close>.
  It turns a list of npm-check results into the choice list of an inquirer checkbox
  prompt. Three libraries are used but are not part of the file: \<^verbatim>\<open>colors/safe\<close>
  (string decoration), \<^verbatim>\<open>cli-table\<close> (table rendering) and \<^verbatim>\<open>inquirer\<close> (the prompt).
  They are parameters of the model, collected in the record \<open>env\<close> below.
\<close>

subsection \<open>Dependency records\<close>

datatype bump_t = major | minor | patch | nonSemver

text \<open>
  Modelled from the spec: the declaration of \<^verbatim>\<open>NpmCheck.INpmCheckPackage\<close> is not in
  the source file (it is imported as a type only). The fields are the ones the source
  reads; their types follow section 3 of the specification: version strings, an optional
  homepage, optional error messages, and status flags that may be absent. \<open>None\<close> is
  JavaScript's \<^verbatim>\<open>undefined\<close> (a missing property reads as \<^verbatim>\<open>undefined\<close>).
\<close>

record INpmCheckPackage =
  moduleName :: string
  homepage :: "string option"
  regError :: "string option"
  pkgError :: "string option"
  latest :: string
  installed :: string
  notInstalled :: "bool option"
  packageJson :: string
  devDependency :: "bool option"
  mismatch :: "bool option"
  bump :: "bump_t option"

text \<open>
  The records are JavaScript objects, passed by reference. A reference is a number and
  the heap maps every reference to the current contents of the object.
\<close>

type_synonym ref = nat
type_synonym heap = "ref \<Rightarrow> INpmCheckPackage"

subsection \<open>Truthiness\<close>

text \<open>JavaScript truthiness of the value kinds the source tests.\<close>

fun truthy_bool :: "bool option \<Rightarrow> bool" where
  "truthy_bool None = False"
| "truthy_bool (Some b) = b"

fun truthy_bump :: "bump_t option \<Rightarrow> bool" where
  "truthy_bump None = False"
| "truthy_bump (Some b) = True"

fun truthy_string :: "string \<Rightarrow> bool" where
  "truthy_string s = (s \<noteq> [])"

fun truthy_ostring :: "string option \<Rightarrow> bool" where
  "truthy_ostring None = False"
| "truthy_ostring (Some s) = truthy_string s"

subsection \<open>Group definitions (interface IUIGroup)\<close>

text \<open>
  A property of the filter object is either missing (\<^verbatim>\<open>'k' in filter\<close> is false) or
  present with a value, which may be \<^verbatim>\<open>undefined\<close>. Reading a missing property gives
  \<^verbatim>\<open>undefined\<close>.
\<close>

datatype 'a filter_key = Missing | Present "'a option"

fun key_in :: "'a filter_key \<Rightarrow> bool" where
  "key_in Missing = False"
| "key_in (Present v) = True"

fun read_prop :: "'a filter_key \<Rightarrow> 'a option" where
  "read_prop Missing = None"
| "read_prop (Present v) = v"

record IUIGroup_filter =
  mismatch_f :: "bool filter_key"
  bump_f :: "bump_t filter_key"
  notInstalled_f :: "bool filter_key"

record IUIGroup =
  title :: string
  bgColor :: "string option"
  filter_g :: IUIGroup_filter

subsection \<open>Choices, separators and the choice table\<close>

text \<open>
  The \<^verbatim>\<open>name\<close> of a choice is declared \<^verbatim>\<open>string | string[]\<close>: first the five label
  fields, later one line of the rendered table. Reading an array past its end gives
  \<^verbatim>\<open>undefined\<close>, so the rewritten name can also be \<^verbatim>\<open>undefined\<close>.
\<close>

datatype name_t = Fields "string option list" | Line string | Undefined

record IUpgradeInteractiveDepChoice =
  value_c :: ref
  name_c :: name_t
  short_c :: string

text \<open>
  An element of a \<^verbatim>\<open>ChoiceTable\<close>: a choice, an inquirer \<^verbatim>\<open>Separator\<close> (identified
  by the line handed to its constructor) or a boolean.
\<close>

datatype item = DepChoice IUpgradeInteractiveDepChoice | Separator string | JsBool bool

text \<open>\<^verbatim>\<open>Boolean(x)\<close>: every object is truthy.\<close>

fun Boolean_js :: "item \<Rightarrow> bool" where
  "Boolean_js (DepChoice c) = True"
| "Boolean_js (Separator s) = True"
| "Boolean_js (JsBool b) = b"

text \<open>
  \<^verbatim>\<open>typeof choice === 'object' && 'name' in choice\<close>: a Separator object has the
  properties \<^verbatim>\<open>type\<close> and \<^verbatim>\<open>line\<close> only.
\<close>

fun object_with_name :: "item \<Rightarrow> bool" where
  "object_with_name (DepChoice c) = True"
| "object_with_name (Separator s) = False"
| "object_with_name (JsBool b) = False"

text \<open>\<^verbatim>\<open>choice.name\<close> and \<^verbatim>\<open>choice.name = v\<close>; the source guards both by the test above.\<close>

fun get_name :: "item \<Rightarrow> name_t" where
  "get_name (DepChoice c) = name_c c"
| "get_name (Separator s) = Undefined"
| "get_name (JsBool b) = Undefined"

fun set_name :: "item \<Rightarrow> name_t \<Rightarrow> item" where
  "set_name (DepChoice c) n = DepChoice (c\<lparr>name_c := n\<rparr>)"
| "set_name (Separator s) n = Separator s"
| "set_name (JsBool b) n = JsBool b"

subsection \<open>The prompt and the external libraries\<close>

record question =
  name_q :: string
  message :: string
  type_q :: string
  choices_q :: "item list"
  pageSize :: "int option"

record IDepsToUpgradeAnswers =
  packages :: "ref list"

datatype style = Green | Yellow | Red | Magenta | Blue | Underline | Bold | Reset

text \<open>
  The collaborators outside the file: \<open>colors s\<close> is the decoration function of
  \<^verbatim>\<open>colors/safe\<close> for style \<open>s\<close>; \<open>cliTable_toString rows\<close> is \<^verbatim>\<open>toString()\<close> of a
  \<^verbatim>\<open>CliTable\<close> (with the options of the source) after the rows were pushed in order;
  \<open>inquirer_prompt\<close> is what the operator answers to a question collection;
  \<open>stdout_rows\<close> is \<^verbatim>\<open>process.stdout.rows\<close>.
\<close>

record env =
  colors :: "style \<Rightarrow> string \<Rightarrow> string"
  cliTable_toString :: "name_t list \<Rightarrow> string"
  inquirer_prompt :: "question list \<Rightarrow> IDepsToUpgradeAnswers"
  stdout_rows :: "int option"

text \<open>
  The state \<^verbatim>\<open>upgradeInteractive\<close> can touch: the dependency objects, the lines written
  with \<^verbatim>\<open>console.log\<close>, and the calls made to \<^verbatim>\<open>inquirer.prompt\<close>.
\<close>

record world =
  records :: heap
  console :: "string list"
  prompted :: "question list list"

section \<open>The functions of the source\<close>

definition greenUnderlineBold :: "env \<Rightarrow> string \<Rightarrow> string" where
  "greenUnderlineBold e text = colors e Underline (colors e Bold (colors e Green text))"

definition yellowUnderlineBold :: "env \<Rightarrow> string \<Rightarrow> string" where
  "yellowUnderlineBold e text = colors e Underline (colors e Bold (colors e Yellow text))"

definition redUnderlineBold :: "env \<Rightarrow> string \<Rightarrow> string" where
  "redUnderlineBold e text = colors e Underline (colors e Bold (colors e Red text))"

definition magentaUnderlineBold :: "env \<Rightarrow> string \<Rightarrow> string" where
  "magentaUnderlineBold e text = colors e Underline (colors e Bold (colors e Magenta text))"

definition UI_GROUPS :: "env \<Rightarrow> IUIGroup list" where
  "UI_GROUPS e =
    [ \<lparr> title = greenUnderlineBold e ''Update package.json to match version installed.'',
        bgColor = None,
        filter_g = \<lparr> mismatch_f = Present (Some True), bump_f = Present None,
                     notInstalled_f = Missing \<rparr> \<rparr>,
      \<lparr> title = greenUnderlineBold e ''Missing.'' @ '' '' @
                  colors e Green ''You probably want these.'',
        bgColor = None,
        filter_g = \<lparr> mismatch_f = Missing, bump_f = Present None,
                     notInstalled_f = Present (Some True) \<rparr> \<rparr>,
      \<lparr> title = greenUnderlineBold e ''Patch Update'' @ '' '' @
                  colors e Green ''Backwards-compatible bug fixes.'',
        bgColor = None,
        filter_g = \<lparr> mismatch_f = Missing, bump_f = Present (Some patch),
                     notInstalled_f = Missing \<rparr> \<rparr>,
      \<lparr> title = yellowUnderlineBold e ''Minor Update'' @ '' '' @
                  colors e Yellow ''New backwards-compatible features.'',
        bgColor = Some ''yellow'',
        filter_g = \<lparr> mismatch_f = Missing, bump_f = Present (Some minor),
                     notInstalled_f = Missing \<rparr> \<rparr>,
      \<lparr> title = redUnderlineBold e ''Major Update'' @ '' '' @
                  colors e Red ''Potentially breaking API changes. Use caution.'',
        bgColor = None,
        filter_g = \<lparr> mismatch_f = Missing, bump_f = Present (Some major),
                     notInstalled_f = Missing \<rparr> \<rparr>,
      \<lparr> title = magentaUnderlineBold e ''Non-Semver'' @ '' '' @
                  colors e Magenta ''Versions less than 1.0.0, caution.'',
        bgColor = None,
        filter_g = \<lparr> mismatch_f = Missing, bump_f = Present (Some nonSemver),
                     notInstalled_f = Missing \<rparr> \<rparr> ]"

text \<open>
  \<^verbatim>\<open>a || b\<close> on strings and on optional strings, and \<^verbatim>\<open>a && b\<close> on strings.
\<close>

definition or_str :: "string \<Rightarrow> string \<Rightarrow> string" where
  "or_str a b = (if truthy_string a then a else b)"

definition or_ostr :: "string option \<Rightarrow> string option \<Rightarrow> string option" where
  "or_ostr a b = (if truthy_ostring a then a else b)"

definition and_str :: "string \<Rightarrow> string \<Rightarrow> string" where
  "and_str a b = (if truthy_string a then b else a)"

definition label :: "env \<Rightarrow> INpmCheckPackage \<Rightarrow> string option list" where
  "label e dep =
    (let bumpInstalled = (if truthy_bump (bump dep) then installed dep else '''');
         installed' = (if truthy_bool (mismatch dep) then packageJson dep else bumpInstalled);
         name = colors e Yellow (moduleName dep);
         type = (if truthy_bool (devDependency dep) then colors e Green '' devDep'' else '''');
         missing = (if truthy_bool (notInstalled dep) then colors e Red '' missing'' else '''');
         homepage' = (case homepage dep of
                        Some url \<Rightarrow> (if truthy_string url
                                     then colors e Blue (colors e Underline url) else '''')
                      | None \<Rightarrow> '''')
     in [ Some (name @ type @ missing),
          Some installed',
          Some (and_str installed' ''>''),
          Some (colors e Bold (or_str (latest dep) '''')),
          (if truthy_string (latest dep) then Some homepage'
           else or_ostr (regError dep) (pkgError dep)) ])"

definition short :: "INpmCheckPackage \<Rightarrow> string" where
  "short dep = moduleName dep @ ''@'' @ latest dep"

definition choice :: "env \<Rightarrow> heap \<Rightarrow> ref \<Rightarrow> item" where
  "choice e h dep =
    (if \<not> truthy_bool (mismatch (h dep)) \<and> \<not> truthy_bump (bump (h dep)) \<and>
        \<not> truthy_bool (notInstalled (h dep))
     then JsBool False
     else DepChoice \<lparr> value_c = dep, name_c = Fields (label e (h dep)), short_c = short (h dep) \<rparr>)"

text \<open>The argument is the \<^verbatim>\<open>title\<close> of the options object, when one is passed.\<close>

definition unselectable :: "env \<Rightarrow> string option \<Rightarrow> item" where
  "unselectable e options =
    Separator (colors e Reset (case options of Some t \<Rightarrow> t | None \<Rightarrow> ''''))"

text \<open>\<^verbatim>\<open>s.split(c)\<close> for a one-character separator: the empty string gives one empty piece.\<close>

fun split_js :: "char \<Rightarrow> string \<Rightarrow> string list" where
  "split_js c [] = [[]]"
| "split_js c (x # xs) =
    (if x = c then [] # split_js c xs
     else (case split_js c xs of
             piece # pieces \<Rightarrow> (x # piece) # pieces
           | [] \<Rightarrow> [[x]]))"

text \<open>\<^verbatim>\<open>choicesAsATable[i]\<close>: reading past the end of the array gives \<^verbatim>\<open>undefined\<close>.\<close>

definition array_read :: "string list \<Rightarrow> nat \<Rightarrow> name_t" where
  "array_read xs i = (if i < length xs then Line (xs ! i) else Undefined)"

text \<open>Lines 121 to 131 of the source: the filter callback of \<^verbatim>\<open>createChoices\<close>.\<close>

definition filteredChoices :: "heap \<Rightarrow> ref list \<Rightarrow> IUIGroup_filter \<Rightarrow> ref list" where
  "filteredChoices h pkgs f =
    filter (\<lambda>pkg.
      if key_in (mismatch_f f) \<and> mismatch (h pkg) \<noteq> read_prop (mismatch_f f) then False
      else if key_in (bump_f f) \<and> bump (h pkg) \<noteq> read_prop (bump_f f) then False
      else if key_in (notInstalled_f f) \<and> notInstalled (h pkg) \<noteq> read_prop (notInstalled_f f)
      then False
      else True) pkgs"

text \<open>Lines 133 to 135: \<^verbatim>\<open>filteredChoices.map(choice).filter(Boolean)\<close>.\<close>

definition mapChoices :: "env \<Rightarrow> heap \<Rightarrow> ref list \<Rightarrow> item list" where
  "mapChoices e h fc = filter Boolean_js (map (choice e h) fc)"

text \<open>Lines 158 to 162: the rows pushed to the table, in order.\<close>

definition pushRows :: "item list \<Rightarrow> name_t list" where
  "pushRows choices =
    fold (\<lambda>choice rows. if object_with_name choice then rows @ [get_name choice] else rows)
      choices []"

text \<open>Lines 165 to 170: the loop over \<^verbatim>\<open>i\<close> from 0 to \<^verbatim>\<open>choices.length\<close>.\<close>

definition rewriteNames :: "string list \<Rightarrow> item list \<Rightarrow> item list" where
  "rewriteNames choicesAsATable choices =
    fold (\<lambda>i cs. if object_with_name (cs ! i)
                 then cs[i := set_name (cs ! i) (array_read choicesAsATable i)] else cs)
      [0 ..< length choices] choices"

text \<open>\<^verbatim>\<open>createChoices\<close>; the result \<open>None\<close> is the \<^verbatim>\<open>undefined\<close> of the missing return.\<close>

definition createChoices :: "env \<Rightarrow> heap \<Rightarrow> ref list \<Rightarrow> IUIGroup \<Rightarrow> item list option" where
  "createChoices e h pkgs options =
    (let choices = mapChoices e h (filteredChoices h pkgs (filter_g options));
         choicesAsATable = split_js (CHR 0x0A) (cliTable_toString e (pushRows choices));
         choices' = rewriteNames choicesAsATable choices
     in if length choices' > 0
        then Some (unselectable e None # unselectable e (Some (title options)) # choices')
        else None)"

text \<open>
  Lines 182 to 189 of \<^verbatim>\<open>upgradeInteractive\<close>: the groups that returned an array
  (\<^verbatim>\<open>filter(Boolean)\<close>; every array is truthy), and their concatenation.
\<close>

definition choicesGrouped :: "env \<Rightarrow> heap \<Rightarrow> ref list \<Rightarrow> item list option list" where
  "choicesGrouped e h pkgs =
    filter (\<lambda>g. g \<noteq> None) (map (\<lambda>group. createChoices e h pkgs group) (UI_GROUPS e))"

definition concatGroups :: "item list option list \<Rightarrow> item list" where
  "concatGroups groups =
    fold (\<lambda>choiceGroup choices.
            case choiceGroup of Some g \<Rightarrow> choices @ g | None \<Rightarrow> choices) groups []"

text \<open>
  \<^verbatim>\<open>upgradeInteractive\<close>: the answers and the state afterwards. The promise is modelled
  by its result. \<^verbatim>\<open>process.stdout.rows - 2\<close> is a number only when the rows are one.
\<close>

definition upgradeInteractive ::
    "env \<Rightarrow> ref list \<Rightarrow> world \<Rightarrow> IDepsToUpgradeAnswers \<times> world" where
  "upgradeInteractive e pkgs w =
    (let choices = concatGroups (choicesGrouped e (records w) pkgs)
     in if length choices = 0
        then (\<lparr> packages = [] \<rparr>,
              w\<lparr> console := console w @ [''All dependencies are up to date!''] \<rparr>)
        else
          (let choices' = choices @ [unselectable e None];
               choices'' = choices' @ [unselectable e
                 (Some ''Space to select. Enter to start upgrading. Control-C to cancel.'')];
               promptQuestions =
                 [ \<lparr> name_q = ''packages'',
                     message = ''Choose which packages to upgrade'',
                     type_q = ''checkbox'',
                     choices_q = choices'' @ [unselectable e None],
                     pageSize = map_option (\<lambda>rows. rows - 2) (stdout_rows e) \<rparr> ];
               answers = inquirer_prompt e promptQuestions
           in (answers, w\<lparr> prompted := prompted w @ [promptQuestions] \<rparr>)))"

section \<open>Vocabulary of the properties\<close>

text \<open>
  A record qualifies when \<^verbatim>\<open>choice\<close> does not return \<^verbatim>\<open>false\<close> for it: the negation
  of the guard on line 104.
\<close>

definition qualifies :: "heap \<Rightarrow> ref \<Rightarrow> bool" where
  "qualifies h r =
    (truthy_bool (mismatch (h r)) \<or> truthy_bump (bump (h r)) \<or> truthy_bool (notInstalled (h r)))"

text \<open>The filtered and qualifying records of a group, in input order.\<close>

definition survivors :: "heap \<Rightarrow> ref list \<Rightarrow> IUIGroup \<Rightarrow> ref list" where
  "survivors h pkgs g = filter (qualifies h) (filteredChoices h pkgs (filter_g g))"

text \<open>The lines of the table whose rows are the labels of the given records.\<close>

definition tableLines :: "env \<Rightarrow> heap \<Rightarrow> ref list \<Rightarrow> string list" where
  "tableLines e h rs =
    split_js (CHR 0x0A) (cliTable_toString e (map (\<lambda>r. Fields (label e (h r))) rs))"

text \<open>What a group contributes to the final list, and the choices among some items.\<close>

definition groupOutput :: "env \<Rightarrow> heap \<Rightarrow> ref list \<Rightarrow> IUIGroup \<Rightarrow> item list" where
  "groupOutput e h pkgs g = (case createChoices e h pkgs g of Some items \<Rightarrow> items | None \<Rightarrow> [])"

fun choicesOf :: "item list \<Rightarrow> IUpgradeInteractiveDepChoice list" where
  "choicesOf [] = []"
| "choicesOf (DepChoice c # xs) = c # choicesOf xs"
| "choicesOf (Separator s # xs) = choicesOf xs"
| "choicesOf (JsBool b # xs) = choicesOf xs"

text \<open>The calls of \<^verbatim>\<open>inquirer.prompt\<close> that one run of \<^verbatim>\<open>upgradeInteractive\<close> adds.\<close>

definition newPrompts :: "env \<Rightarrow> ref list \<Rightarrow> world \<Rightarrow> question list list" where
  "newPrompts e pkgs w =
    drop (length (prompted w)) (prompted (snd (upgradeInteractive e pkgs w)))"

section \<open>Sample inputs\<close>

text \<open>
  Concrete collaborators and records, used where a property is evaluated on an input:
  colours switched off, a table that prints the cells of a row one after the other and
  the rows on lines of their own, and an operator who ticks every box.
\<close>

definition plainColors :: "style \<Rightarrow> string \<Rightarrow> string" where
  "plainColors s text = text"

fun sampleCell :: "string option \<Rightarrow> string" where
  "sampleCell None = []"
| "sampleCell (Some s) = s"

fun sampleRow :: "name_t \<Rightarrow> string" where
  "sampleRow (Fields fs) = concat (map sampleCell fs)"
| "sampleRow (Line s) = s"
| "sampleRow Undefined = []"

fun joinLines :: "string list \<Rightarrow> string" where
  "joinLines [] = []"
| "joinLines [x] = x"
| "joinLines (x # y # ys) = x @ [CHR 0x0A] @ joinLines (y # ys)"

definition sampleTable :: "name_t list \<Rightarrow> string" where
  "sampleTable rows = joinLines (map sampleRow rows)"

definition selectAll :: "question list \<Rightarrow> IDepsToUpgradeAnswers" where
  "selectAll qs = \<lparr> packages = map value_c (choicesOf (concat (map choices_q qs))) \<rparr>"

definition sampleEnv :: env where
  "sampleEnv = \<lparr> colors = plainColors, cliTable_toString = sampleTable,
                 inquirer_prompt = selectAll, stdout_rows = Some 24 \<rparr>"

definition upToDate :: INpmCheckPackage where
  "upToDate = \<lparr> moduleName = ''a'', homepage = None, regError = None, pkgError = None,
                latest = ''1'', installed = ''1'', notInstalled = None, packageJson = ''1'',
                devDependency = None, mismatch = None, bump = None \<rparr>"

text \<open>
  Object 0 has a mismatch only, object 1 a major bump, object 2 is up to date, and
  object 3 is both mismatched and not installed.
\<close>

definition sampleHeap :: heap where
  "sampleHeap r =
    (if r = 0 then upToDate\<lparr> moduleName := ''p'', packageJson := ''2'', mismatch := Some True \<rparr>
     else if r = 1 then upToDate\<lparr> moduleName := ''q'', latest := ''3'', bump := Some major \<rparr>
     else if r = 3 then upToDate\<lparr> moduleName := ''m'', mismatch := Some True,
                                  notInstalled := Some True \<rparr>
     else upToDate)"


definition sampleWorld :: world where
  "sampleWorld = \<lparr> records = sampleHeap, console = [], prompted = [] \<rparr>"

section \<open>Lemmas on the loops\<close>

lemma mapChoices_eq:
  "mapChoices e h fc =
     map (\<lambda>r. DepChoice \<lparr> value_c = r, name_c = Fields (label e (h r)), short_c = short (h r) \<rparr>)
       (filter (qualifies h) fc)"
  by (induction fc) (auto simp: mapChoices_def choice_def qualifies_def)

lemma fold_push_acc:
  "fold (\<lambda>choice rows. if object_with_name choice then rows @ [get_name choice] else rows) cs acc
   = acc @ map get_name (filter object_with_name cs)"
  by (induction cs arbitrary: acc) auto

lemma pushRows_eq: "pushRows cs = map get_name (filter object_with_name cs)"
  by (simp add: pushRows_def fold_push_acc)

lemma rewrite_inv:
  "k \<le> length cs \<Longrightarrow>
   length (fold (\<lambda>i cs. if object_with_name (cs ! i)
                 then cs[i := set_name (cs ! i) (array_read tbl i)] else cs) [0 ..< k] cs) = length cs
   \<and> (\<forall>i < length cs.
        fold (\<lambda>i cs. if object_with_name (cs ! i)
                 then cs[i := set_name (cs ! i) (array_read tbl i)] else cs) [0 ..< k] cs ! i
        = (if i < k \<and> object_with_name (cs ! i) then set_name (cs ! i) (array_read tbl i) else cs ! i))"
proof (induction k)
  case 0
  then show ?case by simp
next
  case (Suc k)
  then show ?case by (auto simp: nth_list_update less_Suc_eq)
qed

lemma length_rewriteNames: "length (rewriteNames tbl cs) = length cs"
  using rewrite_inv [of "length cs" cs tbl] by (simp add: rewriteNames_def)

lemma nth_rewriteNames:
  "i < length cs \<Longrightarrow> rewriteNames tbl cs ! i =
     (if object_with_name (cs ! i) then set_name (cs ! i) (array_read tbl i) else cs ! i)"
  using rewrite_inv [of "length cs" cs tbl] by (simp add: rewriteNames_def)

lemma rewriteNames_fresh:
  "rewriteNames tbl
     (map (\<lambda>r. DepChoice \<lparr> value_c = r, name_c = Fields (label e (h r)), short_c = short (h r) \<rparr>) rs) =
   map (\<lambda>i. DepChoice \<lparr> value_c = rs ! i, name_c = array_read tbl i, short_c = short (h (rs ! i)) \<rparr>)
     [0 ..< length rs]"
  by (rule nth_equalityI) (simp_all add: length_rewriteNames nth_rewriteNames)

lemma pushRows_fresh:
  "pushRows
     (map (\<lambda>r. DepChoice \<lparr> value_c = r, name_c = Fields (label e (h r)), short_c = short (h r) \<rparr>) rs) =
   map (\<lambda>r. Fields (label e (h r))) rs"
  by (induction rs) (simp_all add: pushRows_eq)

text \<open>The closed form of \<^verbatim>\<open>createChoices\<close>.\<close>

lemma createChoices_closed:
  "createChoices e h pkgs g =
    (if survivors h pkgs g = [] then None
     else Some (unselectable e None # unselectable e (Some (title g)) #
       map (\<lambda>i. DepChoice \<lparr> value_c = survivors h pkgs g ! i,
                             name_c = array_read (tableLines e h (survivors h pkgs g)) i,
                             short_c = short (h (survivors h pkgs g ! i)) \<rparr>)
         [0 ..< length (survivors h pkgs g)]))"
  by (simp add: createChoices_def Let_def mapChoices_eq pushRows_fresh rewriteNames_fresh
      survivors_def tableLines_def)

lemma choicesOf_map_DepChoice: "choicesOf (map (\<lambda>i. DepChoice (f i)) xs) = map f xs"
  by (induction xs) simp_all

lemma choicesOf_append: "choicesOf (xs @ ys) = choicesOf xs @ choicesOf ys"
  by (induction xs rule: choicesOf.induct) simp_all

lemma choicesOf_groupOutput:
  "choicesOf (groupOutput e h pkgs g) =
     map (\<lambda>i. \<lparr> value_c = survivors h pkgs g ! i,
                 name_c = array_read (tableLines e h (survivors h pkgs g)) i,
                 short_c = short (h (survivors h pkgs g ! i)) \<rparr>)
       [0 ..< length (survivors h pkgs g)]"
  by (simp add: groupOutput_def createChoices_closed unselectable_def choicesOf_map_DepChoice)

lemma fold_concat_acc:
  "fold (\<lambda>choiceGroup choices.
            case choiceGroup of Some g \<Rightarrow> choices @ g | None \<Rightarrow> choices) gs acc
   = acc @ concat (map (\<lambda>g. case g of Some items \<Rightarrow> items | None \<Rightarrow> []) gs)"
  by (induction gs arbitrary: acc) (auto split: option.splits)

lemma concat_filter_None:
  "concat (map (\<lambda>g. case g of Some items \<Rightarrow> items | None \<Rightarrow> []) (filter (\<lambda>g. g \<noteq> None) gs))
   = concat (map (\<lambda>g. case g of Some items \<Rightarrow> items | None \<Rightarrow> []) gs)"
  by (induction gs) auto

lemma concatGroups_eq:
  "concatGroups (choicesGrouped e h pkgs) = concat (map (groupOutput e h pkgs) (UI_GROUPS e))"
proof -
  have "concatGroups (choicesGrouped e h pkgs) =
        concat (map (\<lambda>g. case g of Some items \<Rightarrow> items | None \<Rightarrow> [])
          (map (\<lambda>group. createChoices e h pkgs group) (UI_GROUPS e)))"
    by (simp add: concatGroups_def choicesGrouped_def fold_concat_acc concat_filter_None
        del: not_None_eq)
  also have "\<dots> = concat (map (groupOutput e h pkgs) (UI_GROUPS e))"
    by (simp add: comp_def groupOutput_def [abs_def])
  finally show ?thesis .
qed

section \<open>Lemmas on the assembled lists\<close>

lemma set_survivors:
  "set (survivors h pkgs g) \<subseteq> {r \<in> set pkgs. qualifies h r}"
  by (auto simp: survivors_def filteredChoices_def)

lemma values_groupOutput:
  "map value_c (choicesOf (groupOutput e h pkgs g)) = survivors h pkgs g"
  by (simp add: choicesOf_groupOutput comp_def map_nth)

lemma shorts_groupOutput:
  "c \<in> set (choicesOf (groupOutput e h pkgs g)) \<Longrightarrow> short_c c = short (h (value_c c))"
  by (auto simp: choicesOf_groupOutput)

lemma choicesOf_concat: "choicesOf (concat xss) = concat (map choicesOf xss)"
  by (induction xss) (simp_all add: choicesOf_append)

lemma choicesOf_unselectable: "choicesOf (unselectable e t # xs) = choicesOf xs"
  by (simp add: unselectable_def)

lemma upgradeInteractive_eq:
  "upgradeInteractive e pkgs w =
    (if concatGroups (choicesGrouped e (records w) pkgs) = []
     then (\<lparr> packages = [] \<rparr>,
           w\<lparr> console := console w @ [''All dependencies are up to date!''] \<rparr>)
     else (inquirer_prompt e
             [ \<lparr> name_q = ''packages'', message = ''Choose which packages to upgrade'',
                 type_q = ''checkbox'',
                 choices_q = concatGroups (choicesGrouped e (records w) pkgs) @
                   [unselectable e None,
                    unselectable e
                      (Some ''Space to select. Enter to start upgrading. Control-C to cancel.''),
                    unselectable e None],
                 pageSize = map_option (\<lambda>rows. rows - 2) (stdout_rows e) \<rparr> ],
           w\<lparr> prompted := prompted w @
             [[ \<lparr> name_q = ''packages'', message = ''Choose which packages to upgrade'',
                  type_q = ''checkbox'',
                  choices_q = concatGroups (choicesGrouped e (records w) pkgs) @
                    [unselectable e None,
                     unselectable e
                       (Some ''Space to select. Enter to start upgrading. Control-C to cancel.''),
                     unselectable e None],
                  pageSize = map_option (\<lambda>rows. rows - 2) (stdout_rows e) \<rparr> ]] \<rparr>))"
  by (simp add: upgradeInteractive_def Let_def)

lemma newPrompts_eq:
  "map (map choices_q) (newPrompts e pkgs w) =
    (if concatGroups (choicesGrouped e (records w) pkgs) = [] then []
     else [[concatGroups (choicesGrouped e (records w) pkgs) @
             [unselectable e None,
              unselectable e
                (Some ''Space to select. Enter to start upgrading. Control-C to cancel.''),
              unselectable e None]]])"
  by (simp add: newPrompts_def upgradeInteractive_eq)

lemma choices_concatGroups:
  "c \<in> set (choicesOf (concatGroups (choicesGrouped e h pkgs))) \<Longrightarrow>
     \<exists>g \<in> set (UI_GROUPS e). c \<in> set (choicesOf (groupOutput e h pkgs g))"
  by (auto simp: concatGroups_eq choicesOf_concat)

lemma choices_newPrompts:
  assumes "qs \<in> set (newPrompts e pkgs w)" "q \<in> set qs" "c \<in> set (choicesOf (choices_q q))"
  shows "c \<in> set (choicesOf (concatGroups (choicesGrouped e (records w) pkgs)))"
proof -
  have "choices_q q \<in> set (concat (map (map choices_q) (newPrompts e pkgs w)))"
    using assms(1,2) by auto
  then have "choices_q q = concatGroups (choicesGrouped e (records w) pkgs) @
             [unselectable e None,
              unselectable e
                (Some ''Space to select. Enter to start upgrading. Control-C to cancel.''),
              unselectable e None]"
    by (simp add: newPrompts_eq split: if_splits)
  with assms(3) show ?thesis
    by (simp add: choicesOf_append choicesOf_unselectable)
qed

lemma key_in_conv: "(key_in x \<and> y \<noteq> read_prop x) = (\<exists>v. x = Present v \<and> y \<noteq> v)"
  by (cases x) simp_all

lemma declared_filters_qualify:
  "g \<in> set (UI_GROUPS e) \<Longrightarrow> survivors h pkgs g = filteredChoices h pkgs (filter_g g)"
  unfolding survivors_def filteredChoices_def filter_filter
  by (rule filter_cong) (auto simp: UI_GROUPS_def qualifies_def)

lemma survivors_set_cong:
  "set pkgs' = set pkgs \<Longrightarrow> (survivors h pkgs' g = []) = (survivors h pkgs g = [])"
  by (auto simp: survivors_def filteredChoices_def filter_empty_conv)

lemma rewriteNames_frame:
  "i < length cs \<Longrightarrow>
     rewriteNames tbl cs ! i = set_name (cs ! i) (get_name (rewriteNames tbl cs ! i))"
  by (cases "cs ! i") (simp_all add: nth_rewriteNames)

section \<open>The properties\<close>

text \<open>
  C1. A record passes the filter of a group exactly when, for every key present in the
  filter object, the record's value is equal to the filter's value. A key present with
  the value \<^verbatim>\<open>undefined\<close> asks for the attribute to be absent, a missing key asks for
  nothing, and a filter without keys lets every record pass. For the six declared groups
  the records that pass the filter are exactly the records wrapped by the group's choices.
\<close>

theorem filter_exact_match:
  "(r \<in> set (filteredChoices h pkgs f) \<longleftrightarrow>
      r \<in> set pkgs
      \<and> (\<forall>v. mismatch_f f = Present v \<longrightarrow> mismatch (h r) = v)
      \<and> (\<forall>v. bump_f f = Present v \<longrightarrow> bump (h r) = v)
      \<and> (\<forall>v. notInstalled_f f = Present v \<longrightarrow> notInstalled (h r) = v))
   \<and> filteredChoices h pkgs
        \<lparr> mismatch_f = Missing, bump_f = Missing, notInstalled_f = Missing \<rparr> = pkgs
   \<and> (g \<in> set (UI_GROUPS e) \<longrightarrow>
        map value_c (choicesOf (groupOutput e h pkgs g)) = filteredChoices h pkgs (filter_g g))"
proof -
  have a: "r \<in> set (filteredChoices h pkgs f) \<longleftrightarrow>
      r \<in> set pkgs
      \<and> (\<forall>v. mismatch_f f = Present v \<longrightarrow> mismatch (h r) = v)
      \<and> (\<forall>v. bump_f f = Present v \<longrightarrow> bump (h r) = v)
      \<and> (\<forall>v. notInstalled_f f = Present v \<longrightarrow> notInstalled (h r) = v)"
    by (auto simp: filteredChoices_def key_in_conv)
  have b: "filteredChoices h pkgs
        \<lparr> mismatch_f = Missing, bump_f = Missing, notInstalled_f = Missing \<rparr> = pkgs"
    by (simp add: filteredChoices_def)
  have c: "g \<in> set (UI_GROUPS e) \<longrightarrow>
        map value_c (choicesOf (groupOutput e h pkgs g)) = filteredChoices h pkgs (filter_g g)"
    by (simp add: values_groupOutput declared_filters_qualify)
  show ?thesis
    by (rule conjI [OF a conjI [OF b c]])
qed

theorem filter_exact_match_witness:
  "0 \<in> set (filteredChoices sampleHeap [0, 1, 2, 3] (filter_g (UI_GROUPS sampleEnv ! 0)))
   \<and> 1 \<notin> set (filteredChoices sampleHeap [0, 1, 2, 3] (filter_g (UI_GROUPS sampleEnv ! 0)))
   \<and> 2 \<notin> set (filteredChoices sampleHeap [0, 1, 2, 3] (filter_g (UI_GROUPS sampleEnv ! 0)))
   \<and> map value_c (choicesOf (groupOutput sampleEnv sampleHeap [0, 1, 2, 3] (UI_GROUPS sampleEnv ! 0)))
       = filteredChoices sampleHeap [0, 1, 2, 3] (filter_g (UI_GROUPS sampleEnv ! 0))"
proof -
  let ?g = "UI_GROUPS sampleEnv ! 0"
  let ?f = "filter_g ?g"
  have f: "?f = \<lparr> mismatch_f = Present (Some True), bump_f = Present None,
                   notInstalled_f = Missing \<rparr>"
    by (simp add: UI_GROUPS_def)
  have g: "?g \<in> set (UI_GROUPS sampleEnv)"
    by (simp add: UI_GROUPS_def)
  have r0: "0 \<in> set (filteredChoices sampleHeap [0, 1, 2, 3] ?f)"
    using conjunct1 [OF filter_exact_match [where r = 0 and h = sampleHeap
          and pkgs = "[0, 1, 2, 3]" and f = ?f and g = ?g and e = sampleEnv]]
    unfolding f by (simp add: sampleHeap_def upToDate_def)
  have r1: "1 \<notin> set (filteredChoices sampleHeap [0, 1, 2, 3] ?f)"
    using conjunct1 [OF filter_exact_match [where r = 1 and h = sampleHeap
          and pkgs = "[0, 1, 2, 3]" and f = ?f and g = ?g and e = sampleEnv]]
    unfolding f by (simp add: sampleHeap_def upToDate_def)
  have r2: "2 \<notin> set (filteredChoices sampleHeap [0, 1, 2, 3] ?f)"
    using conjunct1 [OF filter_exact_match [where r = 2 and h = sampleHeap
          and pkgs = "[0, 1, 2, 3]" and f = ?f and g = ?g and e = sampleEnv]]
    unfolding f by (simp add: sampleHeap_def upToDate_def)
  have v: "map value_c (choicesOf (groupOutput sampleEnv sampleHeap [0, 1, 2, 3] ?g))
       = filteredChoices sampleHeap [0, 1, 2, 3] ?f"
    by (rule mp [OF conjunct2 [OF conjunct2 [OF filter_exact_match]] g])
  show ?thesis
    using r0 r1 r2 v by (intro conjI)
qed

text \<open>
  C2. A record with none of \<^verbatim>\<open>mismatch\<close>, \<^verbatim>\<open>bump\<close> and \<^verbatim>\<open>notInstalled\<close> set gives
  no choice: \<^verbatim>\<open>choice\<close> returns \<^verbatim>\<open>false\<close> for it, and no choice of any group, of the
  concatenated list or of the list handed to the prompt wraps it.
\<close>

theorem no_flags_no_choice:
  assumes "\<not> truthy_bool (mismatch (records w r))"
    and "\<not> truthy_bump (bump (records w r))"
    and "\<not> truthy_bool (notInstalled (records w r))"
  shows "choice e (records w) r = JsBool False
    \<and> (\<forall>c \<in> set (choicesOf (groupOutput e (records w) pkgs g)). value_c c \<noteq> r)
    \<and> (\<forall>c \<in> set (choicesOf (concatGroups (choicesGrouped e (records w) pkgs))). value_c c \<noteq> r)
    \<and> (\<forall>qs \<in> set (newPrompts e pkgs w). \<forall>q \<in> set qs.
          \<forall>c \<in> set (choicesOf (choices_q q)). value_c c \<noteq> r)"
proof -
  have nq: "\<not> qualifies (records w) r"
    using assms by (simp add: qualifies_def)
  have grp: "value_c c \<noteq> r" if "c \<in> set (choicesOf (groupOutput e (records w) pkgs g'))" for c g'
  proof -
    from that have "value_c c \<in> set (map value_c (choicesOf (groupOutput e (records w) pkgs g')))"
      by simp
    then have "qualifies (records w) (value_c c)"
      using set_survivors [of "records w" pkgs g'] by (auto simp: values_groupOutput)
    with nq show ?thesis by auto
  qed
  have all: "value_c c \<noteq> r"
    if "c \<in> set (choicesOf (concatGroups (choicesGrouped e (records w) pkgs)))" for c
    using choices_concatGroups [OF that] grp by blast
  have "choice e (records w) r = JsBool False"
    using assms by (simp add: choice_def)
  moreover have "\<forall>c \<in> set (choicesOf (groupOutput e (records w) pkgs g)). value_c c \<noteq> r"
    using grp by blast
  moreover have "\<forall>c \<in> set (choicesOf (concatGroups (choicesGrouped e (records w) pkgs))). value_c c \<noteq> r"
    using all by blast
  moreover have "\<forall>qs \<in> set (newPrompts e pkgs w). \<forall>q \<in> set qs.
          \<forall>c \<in> set (choicesOf (choices_q q)). value_c c \<noteq> r"
    using choices_newPrompts all by blast
  ultimately show ?thesis by blast
qed

theorem no_flags_no_choice_witness:
  "choice sampleEnv (records sampleWorld) 2 = JsBool False
   \<and> 2 \<notin> set (map value_c (choicesOf
        (concatGroups (choicesGrouped sampleEnv (records sampleWorld) [0, 1, 2, 3]))))"
  using no_flags_no_choice [of sampleWorld 2 sampleEnv "[0, 1, 2, 3]"]
  by (auto simp: sampleWorld_def sampleHeap_def upToDate_def)

text \<open>
  C5. A group with filtered and qualifying records returns a blank separator, a
  separator with the group's title and then its choices; a group without any returns
  nothing and adds no entry to the concatenated list, which is the concatenation of
  what the groups return.
\<close>

theorem group_block_shape:
  "(survivors h pkgs g \<noteq> [] \<longrightarrow>
      createChoices e h pkgs g =
        Some (Separator (colors e Reset []) # Separator (colors e Reset (title g)) #
              map DepChoice (choicesOf (groupOutput e h pkgs g)))
      \<and> length (choicesOf (groupOutput e h pkgs g)) = length (survivors h pkgs g))
   \<and> (survivors h pkgs g = [] \<longrightarrow>
        createChoices e h pkgs g = None \<and> groupOutput e h pkgs g = [])
   \<and> concatGroups (choicesGrouped e h pkgs) =
       concat (map (groupOutput e h pkgs) (UI_GROUPS e))"
proof -
  have a: "createChoices e h pkgs g =
        Some (Separator (colors e Reset []) # Separator (colors e Reset (title g)) #
              map DepChoice (choicesOf (groupOutput e h pkgs g)))"
    if "survivors h pkgs g \<noteq> []"
    using that by (simp add: choicesOf_groupOutput) (simp add: createChoices_closed unselectable_def)
  have b: "length (choicesOf (groupOutput e h pkgs g)) = length (survivors h pkgs g)"
    by (simp add: choicesOf_groupOutput)
  have c: "createChoices e h pkgs g = None \<and> groupOutput e h pkgs g = []"
    if "survivors h pkgs g = []"
    using that by (simp add: groupOutput_def createChoices_closed)
  show ?thesis
    using a b c concatGroups_eq by blast
qed

theorem group_block_shape_witness:
  "createChoices sampleEnv sampleHeap [0, 1, 2, 3] (UI_GROUPS sampleEnv ! 1) =
     Some [Separator [], Separator ''Missing. You probably want these.'',
           DepChoice \<lparr> value_c = 3, name_c = Line ''m missing1>1'', short_c = ''m@1'' \<rparr>]
   \<and> createChoices sampleEnv sampleHeap [0, 1, 2, 3] (UI_GROUPS sampleEnv ! 2) = None"
proof -
  have s1: "survivors sampleHeap [0, 1, 2, 3] (UI_GROUPS sampleEnv ! 1) = [3]"
    by (simp add: UI_GROUPS_def survivors_def filteredChoices_def qualifies_def
        sampleHeap_def upToDate_def)
  have s2: "survivors sampleHeap [0, 1, 2, 3] (UI_GROUPS sampleEnv ! 2) = []"
    by (simp add: UI_GROUPS_def survivors_def filteredChoices_def qualifies_def
        sampleHeap_def upToDate_def)
  have t: "tableLines sampleEnv sampleHeap [3] = [''m missing1>1'']"
    by (simp add: tableLines_def sampleEnv_def sampleTable_def label_def plainColors_def
        sampleHeap_def upToDate_def and_str_def or_str_def Let_def)
  have c: "choicesOf (groupOutput sampleEnv sampleHeap [0, 1, 2, 3] (UI_GROUPS sampleEnv ! 1)) =
      [\<lparr> value_c = 3, name_c = Line ''m missing1>1'', short_c = ''m@1'' \<rparr>]"
    by (simp only: choicesOf_groupOutput s1 t)
      (simp add: array_read_def short_def sampleHeap_def upToDate_def)
  have ti: "title (UI_GROUPS sampleEnv ! 1) = ''Missing. You probably want these.''"
    by (simp add: UI_GROUPS_def sampleEnv_def plainColors_def greenUnderlineBold_def)
  from group_block_shape [of sampleHeap "[0, 1, 2, 3]" "UI_GROUPS sampleEnv ! 1" sampleEnv]
    group_block_shape [of sampleHeap "[0, 1, 2, 3]" "UI_GROUPS sampleEnv ! 2" sampleEnv]
  show ?thesis
    by (simp only: s1 s2 c ti) (simp add: sampleEnv_def plainColors_def)
qed

text \<open>
  C6. When no group has a filtered and qualifying record, \<^verbatim>\<open>upgradeInteractive\<close>
  writes one line to the console, returns the empty selection and does not call the
  prompt.
\<close>

theorem nothing_to_present:
  assumes "\<forall>g \<in> set (UI_GROUPS e). survivors (records w) pkgs g = []"
  shows "upgradeInteractive e pkgs w =
           (\<lparr> packages = [] \<rparr>,
            w\<lparr> console := console w @ [''All dependencies are up to date!''] \<rparr>)
    \<and> console (snd (upgradeInteractive e pkgs w)) =
        console w @ [''All dependencies are up to date!'']
    \<and> prompted (snd (upgradeInteractive e pkgs w)) = prompted w
    \<and> newPrompts e pkgs w = []"
proof -
  have "groupOutput e (records w) pkgs g = []" if "g \<in> set (UI_GROUPS e)" for g
    using assms that by (simp add: groupOutput_def createChoices_closed)
  then have "concatGroups (choicesGrouped e (records w) pkgs) = []"
    by (simp add: concatGroups_eq)
  then show ?thesis
    by (simp add: upgradeInteractive_eq newPrompts_def)
qed

theorem nothing_to_present_witness:
  "upgradeInteractive sampleEnv [2, 4] sampleWorld =
     (\<lparr> packages = [] \<rparr>,
      sampleWorld\<lparr> console := [''All dependencies are up to date!''] \<rparr>)
   \<and> newPrompts sampleEnv [2, 4] sampleWorld = []"
proof -
  have "\<forall>g \<in> set (UI_GROUPS sampleEnv). survivors (records sampleWorld) [2, 4] g = []"
    by (simp add: UI_GROUPS_def survivors_def filteredChoices_def qualifies_def
        sampleWorld_def sampleHeap_def upToDate_def)
  from nothing_to_present [OF this] show ?thesis
    by (simp add: sampleWorld_def)
qed

text \<open>
  C7. The list handed to the prompt does not end with the instructional separator: the
  source appends one more blank separator when it builds the question
  (\<^verbatim>\<open>choices.concat(unselectable())\<close>). For the single mismatched record 0 the list is
  not the group entries followed by the blank and the instructional separator only.
\<close>

theorem prompt_list_trailer_counterexample:
  "concatGroups (choicesGrouped sampleEnv (records sampleWorld) [0]) \<noteq> []
   \<and> map (map choices_q) (newPrompts sampleEnv [0] sampleWorld) \<noteq>
       [[concatGroups (choicesGrouped sampleEnv (records sampleWorld) [0]) @
          [unselectable sampleEnv None,
           unselectable sampleEnv
             (Some ''Space to select. Enter to start upgrading. Control-C to cancel.'')]]]"
proof -
  have ne: "concatGroups (choicesGrouped sampleEnv (records sampleWorld) [0]) \<noteq> []"
   by (simp add: concatGroups_eq UI_GROUPS_def groupOutput_def createChoices_closed
        survivors_def filteredChoices_def qualifies_def sampleWorld_def sampleHeap_def upToDate_def)
  then show ?thesis
    by (simp add: newPrompts_eq)
qed

text \<open>
  C7, as the source has it. When the concatenated group output is not empty, the prompt
  is called once, with the group entries followed by a blank separator, the
  instructional separator and a second blank separator; the answers of the prompt are
  returned and nothing is written to the console.
\<close>

theorem prompt_list_trailer:
  assumes "concatGroups (choicesGrouped e (records w) pkgs) \<noteq> []"
  shows "map (map choices_q) (newPrompts e pkgs w) =
      [[concatGroups (choicesGrouped e (records w) pkgs) @
         [unselectable e None,
          unselectable e
            (Some ''Space to select. Enter to start upgrading. Control-C to cancel.''),
          unselectable e None]]]
    \<and> fst (upgradeInteractive e pkgs w) = inquirer_prompt e (last (newPrompts e pkgs w))
    \<and> console (snd (upgradeInteractive e pkgs w)) = console w"
  using assms by (simp add: newPrompts_eq) (simp add: newPrompts_def upgradeInteractive_eq)

theorem prompt_list_trailer_witness:
  "map (map choices_q) (newPrompts sampleEnv [0] sampleWorld) =
     [[ [Separator [],
         Separator ''Update package.json to match version installed.'',
         DepChoice \<lparr> value_c = 0, name_c = Line ''p2>1'', short_c = ''p@1'' \<rparr>,
         Separator [],
         Separator ''Space to select. Enter to start upgrading. Control-C to cancel.'',
         Separator []] ]]"
proof -
  have ne: "concatGroups (choicesGrouped sampleEnv (records sampleWorld) [0]) \<noteq> []"
   by (simp add: concatGroups_eq UI_GROUPS_def groupOutput_def createChoices_closed
        survivors_def filteredChoices_def qualifies_def sampleWorld_def sampleHeap_def upToDate_def)
  from prompt_list_trailer [OF this] show ?thesis
   by (simp add: concatGroups_eq UI_GROUPS_def groupOutput_def createChoices_closed
        survivors_def filteredChoices_def qualifies_def sampleWorld_def sampleHeap_def upToDate_def
        unselectable_def sampleEnv_def plainColors_def greenUnderlineBold_def tableLines_def
        sampleTable_def array_read_def label_def short_def and_str_def or_str_def)
qed

text \<open>
  C8. The label of a record has five fields: the decorated name with the devDependency
  and missing tags, the version shown as current (the manifest's when \<^verbatim>\<open>mismatch\<close> is
  set, else the installed one when \<^verbatim>\<open>bump\<close> is set, else empty), the marker
  \<^verbatim>\<open>>\<close> exactly when the second field is not empty, the latest version, and the
  homepage link when there is a latest version, else the registry or package error.
  The short label is the name, \<^verbatim>\<open>@\<close> and the latest version.
\<close>

theorem label_five_fields:
  "label e dep =
     [ Some (colors e Yellow (moduleName dep)
             @ (if truthy_bool (devDependency dep) then colors e Green '' devDep'' else [])
             @ (if truthy_bool (notInstalled dep) then colors e Red '' missing'' else [])),
       Some (if truthy_bool (mismatch dep) then packageJson dep
             else if truthy_bump (bump dep) then installed dep else []),
       Some (if (if truthy_bool (mismatch dep) then packageJson dep
                 else if truthy_bump (bump dep) then installed dep else []) = []
             then [] else ''>''),
       Some (colors e Bold (latest dep)),
       (if latest dep \<noteq> []
        then Some (case homepage dep of
                     None \<Rightarrow> []
                   | Some url \<Rightarrow> if url = [] then [] else colors e Blue (colors e Underline url))
        else if truthy_ostring (regError dep) then regError dep else pkgError dep) ]
   \<and> length (label e dep) = 5
   \<and> (label e dep ! 2 = Some ''>'') = (label e dep ! 1 \<noteq> Some [])
   \<and> short dep = moduleName dep @ ''@'' @ latest dep"
  by (simp add: label_def short_def and_str_def or_str_def or_ostr_def Let_def
      split: option.splits)

theorem label_five_fields_witness:
  "label sampleEnv (sampleHeap 3) = [Some ''m missing'', Some ''1'', Some ''>'', Some ''1'', Some []]
   \<and> short (sampleHeap 3) = ''m@1''"
  using label_five_fields [of sampleEnv "sampleHeap 3"]
  by (simp add: sampleEnv_def plainColors_def sampleHeap_def upToDate_def)




text \<open>
  C4. The concatenated list is the output of the six groups in their declared order
  (mismatch without bump, missing without bump, patch, minor, major, non-semver). The
  records wrapped by the choices of a group are the filtered and qualifying records,
  a subsequence of the input; which groups are empty, and the two separators that open
  a group, do not depend on the order of the input.
\<close>

theorem group_order_fixed:
  "concatGroups (choicesGrouped e h pkgs) =
     groupOutput e h pkgs (UI_GROUPS e ! 0) @ groupOutput e h pkgs (UI_GROUPS e ! 1) @
     groupOutput e h pkgs (UI_GROUPS e ! 2) @ groupOutput e h pkgs (UI_GROUPS e ! 3) @
     groupOutput e h pkgs (UI_GROUPS e ! 4) @ groupOutput e h pkgs (UI_GROUPS e ! 5)
   \<and> map filter_g (UI_GROUPS e) =
       [ \<lparr> mismatch_f = Present (Some True), bump_f = Present None, notInstalled_f = Missing \<rparr>,
         \<lparr> mismatch_f = Missing, bump_f = Present None, notInstalled_f = Present (Some True) \<rparr>,
         \<lparr> mismatch_f = Missing, bump_f = Present (Some patch), notInstalled_f = Missing \<rparr>,
         \<lparr> mismatch_f = Missing, bump_f = Present (Some minor), notInstalled_f = Missing \<rparr>,
         \<lparr> mismatch_f = Missing, bump_f = Present (Some major), notInstalled_f = Missing \<rparr>,
         \<lparr> mismatch_f = Missing, bump_f = Present (Some nonSemver), notInstalled_f = Missing \<rparr> ]
   \<and> map value_c (choicesOf (groupOutput e h pkgs g)) = survivors h pkgs g
   \<and> subseq (survivors h pkgs g) pkgs
   \<and> (set pkgs' = set pkgs \<longrightarrow>
        (groupOutput e h pkgs' g = []) = (groupOutput e h pkgs g = [])
        \<and> take 2 (groupOutput e h pkgs' g) = take 2 (groupOutput e h pkgs g))"
proof -
  have a: "concatGroups (choicesGrouped e h pkgs) =
     groupOutput e h pkgs (UI_GROUPS e ! 0) @ groupOutput e h pkgs (UI_GROUPS e ! 1) @
     groupOutput e h pkgs (UI_GROUPS e ! 2) @ groupOutput e h pkgs (UI_GROUPS e ! 3) @
     groupOutput e h pkgs (UI_GROUPS e ! 4) @ groupOutput e h pkgs (UI_GROUPS e ! 5)"
    unfolding concatGroups_eq by (simp add: UI_GROUPS_def)
  have b: "map filter_g (UI_GROUPS e) =
       [ \<lparr> mismatch_f = Present (Some True), bump_f = Present None, notInstalled_f = Missing \<rparr>,
         \<lparr> mismatch_f = Missing, bump_f = Present None, notInstalled_f = Present (Some True) \<rparr>,
         \<lparr> mismatch_f = Missing, bump_f = Present (Some patch), notInstalled_f = Missing \<rparr>,
         \<lparr> mismatch_f = Missing, bump_f = Present (Some minor), notInstalled_f = Missing \<rparr>,
         \<lparr> mismatch_f = Missing, bump_f = Present (Some major), notInstalled_f = Missing \<rparr>,
         \<lparr> mismatch_f = Missing, bump_f = Present (Some nonSemver), notInstalled_f = Missing \<rparr> ]"
    by (simp add: UI_GROUPS_def)
  have c: "subseq (survivors h pkgs g) pkgs"
    by (simp add: survivors_def filteredChoices_def)
  have d: "(groupOutput e h pkgs' g = []) = (groupOutput e h pkgs g = [])
        \<and> take 2 (groupOutput e h pkgs' g) = take 2 (groupOutput e h pkgs g)"
    if "set pkgs' = set pkgs"
    using survivors_set_cong [OF that, of h g]
    by (simp add: groupOutput_def createChoices_closed)
  show ?thesis
    by (intro conjI impI a b c values_groupOutput) (simp_all only: d)
qed

theorem group_order_fixed_witness:
  "map value_c (choicesOf (concatGroups (choicesGrouped sampleEnv sampleHeap [1, 3, 2, 0])))
     = [3, 0, 3, 1]
   \<and> take 2 (groupOutput sampleEnv sampleHeap [1, 3, 2, 0] (UI_GROUPS sampleEnv ! 4)) =
       take 2 (groupOutput sampleEnv sampleHeap [0, 1, 2, 3] (UI_GROUPS sampleEnv ! 4))"
proof -
  have s: "survivors sampleHeap [1, 3, 2, 0] (UI_GROUPS sampleEnv ! 0) = [3, 0]"
    "survivors sampleHeap [1, 3, 2, 0] (UI_GROUPS sampleEnv ! 1) = [3]"
    "survivors sampleHeap [1, 3, 2, 0] (UI_GROUPS sampleEnv ! 2) = []"
    "survivors sampleHeap [1, 3, 2, 0] (UI_GROUPS sampleEnv ! 3) = []"
    "survivors sampleHeap [1, 3, 2, 0] (UI_GROUPS sampleEnv ! 4) = [1]"
    "survivors sampleHeap [1, 3, 2, 0] (UI_GROUPS sampleEnv ! 5) = []"
    by (simp_all add: UI_GROUPS_def survivors_def filteredChoices_def qualifies_def
        sampleHeap_def upToDate_def)
  have p: "set [1, 3, 2, 0] = set [0, 1, 2, 3::nat]"
    by auto
  have v: "map value_c (choicesOf (groupOutput sampleEnv sampleHeap [1, 3, 2, 0] g)) =
           survivors sampleHeap [1, 3, 2, 0] g" for g
    by (rule conjunct1 [OF conjunct2 [OF conjunct2 [OF group_order_fixed]]])
  have c: "concatGroups (choicesGrouped sampleEnv sampleHeap [1, 3, 2, 0]) =
     groupOutput sampleEnv sampleHeap [1, 3, 2, 0] (UI_GROUPS sampleEnv ! 0) @
     groupOutput sampleEnv sampleHeap [1, 3, 2, 0] (UI_GROUPS sampleEnv ! 1) @
     groupOutput sampleEnv sampleHeap [1, 3, 2, 0] (UI_GROUPS sampleEnv ! 2) @
     groupOutput sampleEnv sampleHeap [1, 3, 2, 0] (UI_GROUPS sampleEnv ! 3) @
     groupOutput sampleEnv sampleHeap [1, 3, 2, 0] (UI_GROUPS sampleEnv ! 4) @
     groupOutput sampleEnv sampleHeap [1, 3, 2, 0] (UI_GROUPS sampleEnv ! 5)"
    by (rule conjunct1 [OF group_order_fixed])
  have t: "take 2 (groupOutput sampleEnv sampleHeap [1, 3, 2, 0] (UI_GROUPS sampleEnv ! 4)) =
       take 2 (groupOutput sampleEnv sampleHeap [0, 1, 2, 3] (UI_GROUPS sampleEnv ! 4))"
    by (rule conjunct2 [OF mp [OF conjunct2 [OF conjunct2 [OF conjunct2 [OF conjunct2
        [OF group_order_fixed]]]] p]])
  have "map value_c (choicesOf (concatGroups (choicesGrouped sampleEnv sampleHeap [1, 3, 2, 0])))
     = [3, 0, 3, 1]"
    unfolding c choicesOf_append map_append v s by simp
  with t show ?thesis by (rule_tac conjI)
qed

text \<open>
  C9. \<^verbatim>\<open>upgradeInteractive\<close> leaves the dependency objects as they were. Every choice
  handed to the prompt wraps a reference of the input list and keeps the short label
  computed from it. The rewrite loop keeps the length of the list and changes nothing
  of an item but its name. When the prompt answers with values of the choices it was
  given, the selection consists of references of the input list.
\<close>

theorem records_not_mutated:
  "records (snd (upgradeInteractive e pkgs w)) = records w
   \<and> (\<forall>qs \<in> set (newPrompts e pkgs w). \<forall>q \<in> set qs. \<forall>c \<in> set (choicesOf (choices_q q)).
         value_c c \<in> set pkgs \<and> short_c c = short (records w (value_c c)))
   \<and> length (rewriteNames tbl cs) = length cs
   \<and> (\<forall>i < length cs.
         rewriteNames tbl cs ! i = set_name (cs ! i) (get_name (rewriteNames tbl cs ! i)))
   \<and> ((\<forall>qs. set (packages (inquirer_prompt e qs)) \<subseteq>
              set (map value_c (choicesOf (concat (map choices_q qs))))) \<longrightarrow>
        set (packages (fst (upgradeInteractive e pkgs w))) \<subseteq> set pkgs)"
proof -
  have a: "records (snd (upgradeInteractive e pkgs w)) = records w"
    by (simp add: upgradeInteractive_eq)
  have grp: "value_c c \<in> set pkgs \<and> short_c c = short (records w (value_c c))"
    if "c \<in> set (choicesOf (concatGroups (choicesGrouped e (records w) pkgs)))" for c
  proof -
    from choices_concatGroups [OF that] obtain g
      where g: "c \<in> set (choicesOf (groupOutput e (records w) pkgs g))" by blast
    then have "value_c c \<in> set (map value_c (choicesOf (groupOutput e (records w) pkgs g)))"
      by simp
    then have "value_c c \<in> set pkgs"
      using set_survivors [of "records w" pkgs g] by (auto simp: values_groupOutput)
    with shorts_groupOutput [OF g] show ?thesis by simp
  qed
  have b: "\<forall>qs \<in> set (newPrompts e pkgs w). \<forall>q \<in> set qs. \<forall>c \<in> set (choicesOf (choices_q q)).
         value_c c \<in> set pkgs \<and> short_c c = short (records w (value_c c))"
    using choices_newPrompts grp by blast
  have c: "set (packages (fst (upgradeInteractive e pkgs w))) \<subseteq> set pkgs"
    if sel: "\<forall>qs. set (packages (inquirer_prompt e qs)) \<subseteq>
              set (map value_c (choicesOf (concat (map choices_q qs))))"
  proof (cases "concatGroups (choicesGrouped e (records w) pkgs) = []")
    case True
    then show ?thesis by (simp add: upgradeInteractive_eq)
  next
    case False
    let ?q = "\<lparr> name_q = ''packages'', message = ''Choose which packages to upgrade'',
                 type_q = ''checkbox'',
                 choices_q = concatGroups (choicesGrouped e (records w) pkgs) @
                   [unselectable e None,
                    unselectable e
                      (Some ''Space to select. Enter to start upgrading. Control-C to cancel.''),
                    unselectable e None],
                 pageSize = map_option (\<lambda>rows. rows - 2) (stdout_rows e) \<rparr>"
    have "fst (upgradeInteractive e pkgs w) = inquirer_prompt e [?q]"
      using False by (simp add: upgradeInteractive_eq)
    moreover have "set (packages (inquirer_prompt e [?q])) \<subseteq>
        set (map value_c (choicesOf (concat (map choices_q [?q]))))"
      using sel by blast
    moreover have "choicesOf (concat (map choices_q [?q])) =
        choicesOf (concatGroups (choicesGrouped e (records w) pkgs))"
      by (simp add: choicesOf_append choicesOf_unselectable)
    ultimately show ?thesis
      using grp by auto
  qed
  have d: "\<forall>i < length cs.
         rewriteNames tbl cs ! i = set_name (cs ! i) (get_name (rewriteNames tbl cs ! i))"
    using rewriteNames_frame by blast
  have c': "(\<forall>qs. set (packages (inquirer_prompt e qs)) \<subseteq>
              set (map value_c (choicesOf (concat (map choices_q qs))))) \<longrightarrow>
        set (packages (fst (upgradeInteractive e pkgs w))) \<subseteq> set pkgs"
    using c by (rule impI)
  show ?thesis
    by (intro conjI a b length_rewriteNames d c')
qed

theorem records_not_mutated_witness:
  "records (snd (upgradeInteractive sampleEnv [0, 1, 2, 3] sampleWorld)) = sampleHeap
   \<and> packages (fst (upgradeInteractive sampleEnv [0, 1, 2, 3] sampleWorld)) = [0, 3, 3, 1]
   \<and> set (packages (fst (upgradeInteractive sampleEnv [0, 1, 2, 3] sampleWorld)))
        \<subseteq> set [0, 1, 2, 3]"
proof -
  note main = records_not_mutated [of sampleEnv "[0, 1, 2, 3]" sampleWorld "[]" "[]"]
  have sel: "\<forall>qs. set (packages (inquirer_prompt sampleEnv qs)) \<subseteq>
              set (map value_c (choicesOf (concat (map choices_q qs))))"
    by (simp add: sampleEnv_def selectAll_def)
  have a: "records (snd (upgradeInteractive sampleEnv [0, 1, 2, 3] sampleWorld)) = sampleHeap"
    using conjunct1 [OF main] by (simp add: sampleWorld_def)
  have c: "set (packages (fst (upgradeInteractive sampleEnv [0, 1, 2, 3] sampleWorld)))
        \<subseteq> set [0, 1, 2, 3]"
    by (rule mp [OF conjunct2 [OF conjunct2 [OF conjunct2 [OF conjunct2 [OF main]]]] sel])
  have s: "survivors sampleHeap [0, 1, 2, 3] (UI_GROUPS sampleEnv ! 0) = [0, 3]"
    "survivors sampleHeap [0, 1, 2, 3] (UI_GROUPS sampleEnv ! 1) = [3]"
    "survivors sampleHeap [0, 1, 2, 3] (UI_GROUPS sampleEnv ! 2) = []"
    "survivors sampleHeap [0, 1, 2, 3] (UI_GROUPS sampleEnv ! 3) = []"
    "survivors sampleHeap [0, 1, 2, 3] (UI_GROUPS sampleEnv ! 4) = [1]"
    "survivors sampleHeap [0, 1, 2, 3] (UI_GROUPS sampleEnv ! 5) = []"
    by (simp_all add: UI_GROUPS_def survivors_def filteredChoices_def qualifies_def
        sampleHeap_def upToDate_def)
  have g: "concatGroups (choicesGrouped sampleEnv sampleHeap [0, 1, 2, 3]) =
     groupOutput sampleEnv sampleHeap [0, 1, 2, 3] (UI_GROUPS sampleEnv ! 0) @
     groupOutput sampleEnv sampleHeap [0, 1, 2, 3] (UI_GROUPS sampleEnv ! 1) @
     groupOutput sampleEnv sampleHeap [0, 1, 2, 3] (UI_GROUPS sampleEnv ! 2) @
     groupOutput sampleEnv sampleHeap [0, 1, 2, 3] (UI_GROUPS sampleEnv ! 3) @
     groupOutput sampleEnv sampleHeap [0, 1, 2, 3] (UI_GROUPS sampleEnv ! 4) @
     groupOutput sampleEnv sampleHeap [0, 1, 2, 3] (UI_GROUPS sampleEnv ! 5)"
    unfolding concatGroups_eq by (simp add: UI_GROUPS_def)
  have v: "map value_c (choicesOf (concatGroups (choicesGrouped sampleEnv sampleHeap [0, 1, 2, 3])))
     = [0, 3, 3, 1]"
    unfolding g choicesOf_append map_append values_groupOutput s by simp
  then have ne: "concatGroups (choicesGrouped sampleEnv sampleHeap [0, 1, 2, 3]) \<noteq> []"
    by auto
  have b: "packages (fst (upgradeInteractive sampleEnv [0, 1, 2, 3] sampleWorld)) = [0, 3, 3, 1]"
    using ne v
    by (simp add: upgradeInteractive_eq sampleWorld_def)
      (simp add: sampleEnv_def selectAll_def choicesOf_append unselectable_def)
  show ?thesis
    using a b c by (intro conjI)
qed

text \<open>
  C10. The filters of the groups overlap. A record that is mismatched and not installed
  and has no bump passes both the filter of the first and of the second group: given
  alone, the concatenated list holds a choice wrapping it in each of the two sections.
\<close>

theorem groups_overlap:
  assumes "mismatch (h r) = Some True" and "notInstalled (h r) = Some True"
    and "bump (h r) = None"
  shows "concatGroups (choicesGrouped e h [r]) =
      [ unselectable e None, unselectable e (Some (title (UI_GROUPS e ! 0))),
        DepChoice \<lparr> value_c = r, name_c = array_read (tableLines e h [r]) 0,
                    short_c = short (h r) \<rparr>,
        unselectable e None, unselectable e (Some (title (UI_GROUPS e ! 1))),
        DepChoice \<lparr> value_c = r, name_c = array_read (tableLines e h [r]) 0,
                    short_c = short (h r) \<rparr> ]
    \<and> (r \<in> set pkgs \<longrightarrow>
         r \<in> set (map value_c (choicesOf (groupOutput e h pkgs (UI_GROUPS e ! 0))))
         \<and> r \<in> set (map value_c (choicesOf (groupOutput e h pkgs (UI_GROUPS e ! 1)))))"
proof -
  have s: "survivors h [r] (UI_GROUPS e ! 0) = [r]" "survivors h [r] (UI_GROUPS e ! 1) = [r]"
    "survivors h [r] (UI_GROUPS e ! 2) = []" "survivors h [r] (UI_GROUPS e ! 3) = []"
    "survivors h [r] (UI_GROUPS e ! 4) = []" "survivors h [r] (UI_GROUPS e ! 5) = []"
    using assms
    by (simp_all add: UI_GROUPS_def survivors_def filteredChoices_def qualifies_def)
  have g: "concatGroups (choicesGrouped e h [r]) =
     groupOutput e h [r] (UI_GROUPS e ! 0) @ groupOutput e h [r] (UI_GROUPS e ! 1) @
     groupOutput e h [r] (UI_GROUPS e ! 2) @ groupOutput e h [r] (UI_GROUPS e ! 3) @
     groupOutput e h [r] (UI_GROUPS e ! 4) @ groupOutput e h [r] (UI_GROUPS e ! 5)"
    unfolding concatGroups_eq by (simp add: UI_GROUPS_def)
  have a: "concatGroups (choicesGrouped e h [r]) =
      [ unselectable e None, unselectable e (Some (title (UI_GROUPS e ! 0))),
        DepChoice \<lparr> value_c = r, name_c = array_read (tableLines e h [r]) 0,
                    short_c = short (h r) \<rparr>,
        unselectable e None, unselectable e (Some (title (UI_GROUPS e ! 1))),
        DepChoice \<lparr> value_c = r, name_c = array_read (tableLines e h [r]) 0,
                    short_c = short (h r) \<rparr> ]"
    unfolding g groupOutput_def createChoices_closed s by simp
  have b: "r \<in> set (map value_c (choicesOf (groupOutput e h pkgs (UI_GROUPS e ! 0))))
         \<and> r \<in> set (map value_c (choicesOf (groupOutput e h pkgs (UI_GROUPS e ! 1))))"
    if "r \<in> set pkgs"
    using assms that unfolding values_groupOutput
    by (simp add: UI_GROUPS_def survivors_def filteredChoices_def qualifies_def)
  have b': "r \<in> set pkgs \<longrightarrow>
         r \<in> set (map value_c (choicesOf (groupOutput e h pkgs (UI_GROUPS e ! 0))))
         \<and> r \<in> set (map value_c (choicesOf (groupOutput e h pkgs (UI_GROUPS e ! 1))))"
    using b by (rule impI)
  show ?thesis
    by (rule conjI [OF a b'])
qed

theorem groups_overlap_witness:
  "concatGroups (choicesGrouped sampleEnv sampleHeap [3]) =
     [ Separator [], Separator ''Update package.json to match version installed.'',
       DepChoice \<lparr> value_c = 3, name_c = Line ''m missing1>1'', short_c = ''m@1'' \<rparr>,
       Separator [], Separator ''Missing. You probably want these.'',
       DepChoice \<lparr> value_c = 3, name_c = Line ''m missing1>1'', short_c = ''m@1'' \<rparr> ]"
proof -
  have f: "mismatch (sampleHeap 3) = Some True" "notInstalled (sampleHeap 3) = Some True"
    "bump (sampleHeap 3) = None"
    by (simp_all add: sampleHeap_def upToDate_def)
  have t: "tableLines sampleEnv sampleHeap [3] = [''m missing1>1'']"
    by (simp add: tableLines_def sampleEnv_def sampleTable_def label_def plainColors_def
        sampleHeap_def upToDate_def and_str_def or_str_def Let_def)
  have ti: "title (UI_GROUPS sampleEnv ! 0) = ''Update package.json to match version installed.''"
    "title (UI_GROUPS sampleEnv ! 1) = ''Missing. You probably want these.''"
    by (simp_all add: UI_GROUPS_def sampleEnv_def plainColors_def greenUnderlineBold_def)
  have sh: "short (sampleHeap 3) = ''m@1''"
    by (simp add: short_def sampleHeap_def upToDate_def)
  have u: "unselectable sampleEnv None = Separator []"
    "unselectable sampleEnv (Some x) = Separator x" for x
    by (simp_all add: unselectable_def sampleEnv_def plainColors_def)
  show ?thesis
    using conjunct1 [OF groups_overlap [where h = sampleHeap and r = 3 and e = sampleEnv, OF f]]
    unfolding t ti sh u by (simp add: array_read_def)
qed

end
